theory Spec2Isabelle
  imports Complex_Main
begin

section \<open>Data model of \<open>src/App.tsx\<close>\<close>

text \<open>
  The activity-classification engine of \<open>App.tsx\<close>. Coordinates of keypoints and of
  stored samples are finite JavaScript numbers, modelled as real numbers. The geometric
  features of one frame (angles, distances) are computed over the reals, without
  rounding; the two divisions by \<open>totalHeight\<close> return a \<open>jsnum\<close>, which has
  \<open>NaN\<close> and the two infinities. The two motion detectors compare a computed average
  with a threshold, so rounding decides their result: their arithmetic is a parameter
  (\<open>arith\<close>), and what is proved of them holds for every arithmetic, IEEE 754 doubles
  included.
\<close>

record keypoint =
  kp_x :: real
  kp_y :: real
  kp_score :: real
  kp_name :: string

text \<open>An entry \<open>{ x, y }\<close> of \<open>previousPositions\<close>.\<close>

record position =
  pos_x :: real
  pos_y :: real

text \<open>An entry \<open>{ left: { x, y }, right: { x, y } }\<close> of \<open>wristPositions\<close>.\<close>

record wristPair =
  left :: position
  right :: position

text \<open>The string labels returned by \<open>determineActivity\<close>.\<close>

datatype activity =
  Standing | Movement | RaisingHands | Stable | Waving | Sitting | Squatting

text \<open>One element of the array returned by \<open>detector.estimatePoses\<close>.\<close>

record pose =
  pose_score :: "real option"
  pose_keypoints :: "keypoint list"

text \<open>The React state the engine reads and writes.\<close>

record appState =
  currentActivity :: activity
  previousPositions :: "position list"
  wristPositions :: "wristPair list"

definition initialState :: appState where
  "initialState =
     \<lparr>currentActivity = Stable, previousPositions = [], wristPositions = []\<rparr>"

subsection \<open>JavaScript primitives\<close>

text \<open>\<open>arr.slice(-n)\<close>: the last \<open>n\<close> elements, the whole array when it is shorter.\<close>

definition js_slice_last :: "nat \<Rightarrow> 'a list \<Rightarrow> 'a list" where
  "js_slice_last n xs = drop (length xs - n) xs"

text \<open>\<open>Math.atan2(y, x)\<close> on finite arguments (the sign of zero is not modelled).\<close>

definition atan2 :: "real \<Rightarrow> real \<Rightarrow> real" where
  "atan2 y x =
     (if 0 < x then arctan (y / x)
      else if x < 0 then (if 0 \<le> y then arctan (y / x) + pi else arctan (y / x) - pi)
      else if 0 < y then pi / 2
      else if y < 0 then - (pi / 2)
      else 0)"

datatype jsnum = Num real | NaN | PosInf | NegInf

text \<open>\<open>a / b\<close> of two finite numbers.\<close>

definition js_div :: "real \<Rightarrow> real \<Rightarrow> jsnum" where
  "js_div a b =
     (if b = 0 then (if a = 0 then NaN else if 0 < a then PosInf else NegInf)
      else Num (a / b))"

text \<open>\<open>a < c\<close> and \<open>a > c\<close> against a finite literal: false on \<open>NaN\<close>.\<close>

fun js_lt :: "jsnum \<Rightarrow> real \<Rightarrow> bool" where
  "js_lt (Num a) c = (a < c)"
| "js_lt NaN c = False"
| "js_lt PosInf c = False"
| "js_lt NegInf c = True"

fun js_gt :: "jsnum \<Rightarrow> real \<Rightarrow> bool" where
  "js_gt (Num a) c = (a > c)"
| "js_gt NaN c = False"
| "js_gt PosInf c = True"
| "js_gt NegInf c = False"

subsection \<open>The arithmetic of the motion detectors\<close>

text \<open>
  The operations \<open>isMoving\<close> and \<open>isWaving\<close> apply to numbers, over a type \<open>'n\<close> of
  JavaScript number values (rounded results, infinities and \<open>NaN\<close> included):
  \<open>op_num\<close> is a finite number (a literal, a length or a stored coordinate) as such a
  value, \<open>op_add\<close>, \<open>op_sub\<close>, \<open>op_mul\<close> and \<open>op_div\<close> are \<open>+\<close>, \<open>-\<close>, \<open>*\<close> and
  \<open>/\<close>, \<open>op_sq\<close> is \<open>Math.pow(x, 2)\<close>, \<open>op_sqrt\<close> is \<open>Math.sqrt\<close>, \<open>op_abs\<close> is
  \<open>Math.abs\<close> and \<open>op_gt\<close> is \<open>>\<close>. Nothing is assumed of them.
\<close>

record 'n arith =
  op_num :: "real \<Rightarrow> 'n"
  op_add :: "'n \<Rightarrow> 'n \<Rightarrow> 'n"
  op_sub :: "'n \<Rightarrow> 'n \<Rightarrow> 'n"
  op_mul :: "'n \<Rightarrow> 'n \<Rightarrow> 'n"
  op_div :: "'n \<Rightarrow> 'n \<Rightarrow> 'n"
  op_sq :: "'n \<Rightarrow> 'n"
  op_sqrt :: "'n \<Rightarrow> 'n"
  op_abs :: "'n \<Rightarrow> 'n"
  op_gt :: "'n \<Rightarrow> 'n \<Rightarrow> bool"

section \<open>Geometric features\<close>

definition calculateAngle :: "keypoint \<Rightarrow> keypoint \<Rightarrow> keypoint \<Rightarrow> real" where
  "calculateAngle p1 p2 p3 =
     (let radians =
            atan2 (kp_y p3 - kp_y p2) (kp_x p3 - kp_x p2) -
            atan2 (kp_y p1 - kp_y p2) (kp_x p1 - kp_x p2);
          angle = \<bar>(radians * 180) / pi\<bar>
      in if angle > 180 then 360 - angle else angle)"

definition calculateDistance :: "keypoint \<Rightarrow> keypoint \<Rightarrow> real" where
  "calculateDistance p1 p2 =
     sqrt ((kp_x p2 - kp_x p1)\<^sup>2 + (kp_y p2 - kp_y p1)\<^sup>2)"

section \<open>Motion detectors\<close>

text \<open>
  \<open>isMoving\<close> reads \<open>previousPositions\<close> from the enclosing component; here it is the
  argument \<open>prevs\<close>. \<open>reduce\<close> with an index is a left fold over the indices.
\<close>

definition isMoving :: "'n arith \<Rightarrow> position list \<Rightarrow> position \<Rightarrow> bool" where
  "isMoving ops prevs currentPos =
     (if length prevs < 5 then False
      else
        let recentPositions = js_slice_last 5 prevs;
            avgMovement =
              op_div ops
                (foldl (\<lambda>acc idx.
                         if idx = 0 then op_num ops 0
                         else
                           let pos = recentPositions ! idx;
                               prevPos = recentPositions ! (idx - 1)
                           in op_add ops acc
                                (op_sqrt ops
                                  (op_add ops
                                    (op_sq ops
                                      (op_sub ops (op_num ops (pos_x pos))
                                                  (op_num ops (pos_x prevPos))))
                                    (op_sq ops
                                      (op_sub ops (op_num ops (pos_y pos))
                                                  (op_num ops (pos_y prevPos)))))))
                       (op_num ops 0) [0..<length recentPositions])
                (op_num ops (real (length recentPositions - 1)))
        in op_gt ops avgMovement (op_num ops 15))"

text \<open>
  The four \<open>map((pos, idx, arr) => ...).slice(1)\<close> of \<open>isWaving\<close> differ only in the
  coordinate they read, which is the parameter \<open>c\<close> here.
\<close>

definition wristChanges ::
  "'n arith \<Rightarrow> (wristPair \<Rightarrow> real) \<Rightarrow> wristPair list \<Rightarrow> 'n list" where
  "wristChanges ops c arr =
     drop 1 (map (\<lambda>idx. if idx = 0 then op_num ops 0
                        else op_abs ops (op_sub ops (op_num ops (c (arr ! idx)))
                                                    (op_num ops (c (arr ! (idx - 1))))))
               [0..<length arr])"

definition isWaving :: "'n arith \<Rightarrow> wristPair list \<Rightarrow> bool" where
  "isWaving ops wristHistory =
     (if length wristHistory < 10 then False
      else
        let recentWristPositions = js_slice_last 10 wristHistory;
            leftWristXChanges = wristChanges ops (\<lambda>p. pos_x (left p)) recentWristPositions;
            rightWristXChanges = wristChanges ops (\<lambda>p. pos_x (right p)) recentWristPositions;
            avgLeftWristXChange =
              op_div ops (foldl (op_add ops) (op_num ops 0) leftWristXChanges)
                (op_num ops (real (length leftWristXChanges)));
            avgRightWristXChange =
              op_div ops (foldl (op_add ops) (op_num ops 0) rightWristXChanges)
                (op_num ops (real (length rightWristXChanges)));
            leftWristYChanges = wristChanges ops (\<lambda>p. pos_y (left p)) recentWristPositions;
            rightWristYChanges = wristChanges ops (\<lambda>p. pos_y (right p)) recentWristPositions;
            avgLeftWristYChange =
              op_div ops (foldl (op_add ops) (op_num ops 0) leftWristYChanges)
                (op_num ops (real (length leftWristYChanges)));
            avgRightWristYChange =
              op_div ops (foldl (op_add ops) (op_num ops 0) rightWristYChanges)
                (op_num ops (real (length rightWristYChanges)));
            leftWristWaving =
              (op_gt ops avgLeftWristXChange (op_num ops 20) \<and>
               op_gt ops avgLeftWristXChange
                 (op_mul ops (op_num ops 2) avgLeftWristYChange));
            rightWristWaving =
              (op_gt ops avgRightWristXChange (op_num ops 20) \<and>
               op_gt ops avgRightWristXChange
                 (op_mul ops (op_num ops 2) avgRightWristYChange))
        in leftWristWaving \<or> rightWristWaving)"

section \<open>The classifier\<close>

definition findKeypoint :: "keypoint list \<Rightarrow> string \<Rightarrow> keypoint option" where
  "findKeypoint keypoints name = find (\<lambda>kp. kp_name kp = name) keypoints"

text \<open>The thirteen keypoints \<open>determineActivity\<close> looks up.\<close>

record body =
  nose :: keypoint
  leftShoulder :: keypoint
  rightShoulder :: keypoint
  leftElbow :: keypoint
  rightElbow :: keypoint
  leftWrist :: keypoint
  rightWrist :: keypoint
  leftHip :: keypoint
  rightHip :: keypoint
  leftKnee :: keypoint
  rightKnee :: keypoint
  leftAnkle :: keypoint
  rightAnkle :: keypoint

text \<open>
  The thirteen lookups and the test \<open>!nose || !leftShoulder || ... || !rightAnkle\<close>:
  \<open>None\<close> is the branch that returns \<open>'Stable'\<close>.
\<close>

definition requiredKeypoints :: "keypoint list \<Rightarrow> body option" where
  "requiredKeypoints keypoints =
     (let f_nose = findKeypoint keypoints ''nose'';
          f_leftShoulder = findKeypoint keypoints ''left_shoulder'';
          f_rightShoulder = findKeypoint keypoints ''right_shoulder'';
          f_leftElbow = findKeypoint keypoints ''left_elbow'';
          f_rightElbow = findKeypoint keypoints ''right_elbow'';
          f_leftWrist = findKeypoint keypoints ''left_wrist'';
          f_rightWrist = findKeypoint keypoints ''right_wrist'';
          f_leftHip = findKeypoint keypoints ''left_hip'';
          f_rightHip = findKeypoint keypoints ''right_hip'';
          f_leftKnee = findKeypoint keypoints ''left_knee'';
          f_rightKnee = findKeypoint keypoints ''right_knee'';
          f_leftAnkle = findKeypoint keypoints ''left_ankle'';
          f_rightAnkle = findKeypoint keypoints ''right_ankle''
      in if f_nose = None \<or>
            f_leftShoulder = None \<or>
            f_rightShoulder = None \<or>
            f_leftElbow = None \<or>
            f_rightElbow = None \<or>
            f_leftWrist = None \<or>
            f_rightWrist = None \<or>
            f_leftHip = None \<or>
            f_rightHip = None \<or>
            f_leftKnee = None \<or>
            f_rightKnee = None \<or>
            f_leftAnkle = None \<or>
            f_rightAnkle = None
         then None
         else Some \<lparr>nose = the f_nose,
                  leftShoulder = the f_leftShoulder,
                  rightShoulder = the f_rightShoulder,
                  leftElbow = the f_leftElbow,
                  rightElbow = the f_rightElbow,
                  leftWrist = the f_leftWrist,
                  rightWrist = the f_rightWrist,
                  leftHip = the f_leftHip,
                  rightHip = the f_rightHip,
                  leftKnee = the f_leftKnee,
                  rightKnee = the f_rightKnee,
                  leftAnkle = the f_leftAnkle,
                  rightAnkle = the f_rightAnkle\<rparr>)"

definition leftKneeAngle :: "body \<Rightarrow> real" where
  "leftKneeAngle b = calculateAngle (leftHip b) (leftKnee b) (leftAnkle b)"

definition rightKneeAngle :: "body \<Rightarrow> real" where
  "rightKneeAngle b = calculateAngle (rightHip b) (rightKnee b) (rightAnkle b)"

definition leftHipAngle :: "body \<Rightarrow> real" where
  "leftHipAngle b = calculateAngle (leftShoulder b) (leftHip b) (leftKnee b)"

definition rightHipAngle :: "body \<Rightarrow> real" where
  "rightHipAngle b = calculateAngle (rightShoulder b) (rightHip b) (rightKnee b)"

definition shoulderHipDist :: "body \<Rightarrow> real" where
  "shoulderHipDist b =
     (calculateDistance (leftShoulder b) (leftHip b) +
      calculateDistance (rightShoulder b) (rightHip b)) / 2"

definition hipKneeDist :: "body \<Rightarrow> real" where
  "hipKneeDist b =
     (calculateDistance (leftHip b) (leftKnee b) +
      calculateDistance (rightHip b) (rightKnee b)) / 2"

definition kneeAnkleDist :: "body \<Rightarrow> real" where
  "kneeAnkleDist b =
     (calculateDistance (leftKnee b) (leftAnkle b) +
      calculateDistance (rightKnee b) (rightAnkle b)) / 2"

definition totalHeight :: "body \<Rightarrow> real" where
  "totalHeight b = shoulderHipDist b + hipKneeDist b + kneeAnkleDist b"

definition shoulderHipRatio :: "body \<Rightarrow> jsnum" where
  "shoulderHipRatio b = js_div (shoulderHipDist b) (totalHeight b)"

definition hipKneeRatio :: "body \<Rightarrow> jsnum" where
  "hipKneeRatio b = js_div (hipKneeDist b) (totalHeight b)"

text \<open>The conditions of the rule chain, in the order of the source.\<close>

definition armsRaised :: "body \<Rightarrow> bool" where
  "armsRaised b =
     (kp_y (leftWrist b) < kp_y (leftShoulder b) - 50 \<and>
      kp_y (rightWrist b) < kp_y (rightShoulder b) - 50)"

definition isSquatting :: "body \<Rightarrow> bool" where
  "isSquatting b =
     (leftKneeAngle b < 100 \<and>
      rightKneeAngle b < 100 \<and>
      leftHipAngle b > 45 \<and>
      rightHipAngle b > 45 \<and>
      \<bar>kp_y (leftShoulder b) - kp_y (rightShoulder b)\<bar> < 30 \<and>
      kp_y (nose b) > (kp_y (leftShoulder b) + kp_y (rightShoulder b)) / 2)"

definition isSitting :: "body \<Rightarrow> jsnum \<Rightarrow> jsnum \<Rightarrow> bool" where
  "isSitting b shr hkr =
     (leftKneeAngle b < 120 \<and>
      rightKneeAngle b < 120 \<and>
      kp_y (leftHip b) > kp_y (leftKnee b) - 20 \<and>
      kp_y (rightHip b) > kp_y (rightKnee b) - 20 \<and>
      js_lt shr 0.4 \<and>
      js_gt hkr 0.3)"

definition isStanding :: "body \<Rightarrow> jsnum \<Rightarrow> jsnum \<Rightarrow> bool" where
  "isStanding b shr hkr =
     (leftKneeAngle b > 160 \<and>
      rightKneeAngle b > 160 \<and>
      \<bar>kp_y (leftShoulder b) - kp_y (rightShoulder b)\<bar> < 30 \<and>
      \<bar>kp_y (leftHip b) - kp_y (rightHip b)\<bar> < 30 \<and>
      \<bar>kp_y (leftKnee b) - kp_y (rightKnee b)\<bar> < 30 \<and>
      js_gt shr 0.3 \<and>
      js_gt hkr 0.3)"

text \<open>
  Lines 268 to 329 of \<open>determineActivity\<close>: the chain of \<open>if (...) return ...\<close>, with
  the two ratios computed just before it as arguments.
\<close>

definition applyRules ::
  "'n arith \<Rightarrow> position list \<Rightarrow> wristPair list \<Rightarrow> body \<Rightarrow> jsnum \<Rightarrow> jsnum \<Rightarrow>
     activity" where
  "applyRules ops prevs wrists b shr hkr =
     (if armsRaised b then RaisingHands
      else if isWaving ops wrists then Waving
      else if isSquatting b then Squatting
      else if isSitting b shr hkr then Sitting
      else if isMoving ops prevs \<lparr>pos_x = kp_x (nose b), pos_y = kp_y (nose b)\<rparr> then Movement
      else if isStanding b shr hkr then Standing
      else Stable)"

text \<open>
  \<open>determineActivity\<close> reads \<open>previousPositions\<close> (through \<open>isMoving\<close>) and
  \<open>wristPositions\<close> from the component; here they are the arguments \<open>prevs\<close> and
  \<open>wrists\<close>.
\<close>

definition determineActivity ::
  "'n arith \<Rightarrow> position list \<Rightarrow> wristPair list \<Rightarrow> keypoint list \<Rightarrow> activity" where
  "determineActivity ops prevs wrists keypoints =
     (if keypoints = [] then Stable
      else case requiredKeypoints keypoints of
             None \<Rightarrow> Stable
           | Some b \<Rightarrow> applyRules ops prevs wrists b (shoulderHipRatio b) (hipKneeRatio b))"

section \<open>The classification cycle\<close>

text \<open>The two updaters passed to \<open>setPreviousPositions\<close> and \<open>setWristPositions\<close>.\<close>

definition appendPosition :: "position list \<Rightarrow> position \<Rightarrow> position list" where
  "appendPosition prev p = js_slice_last 9 prev @ [p]"

definition appendWrists :: "wristPair list \<Rightarrow> wristPair \<Rightarrow> wristPair list" where
  "appendWrists prev w = js_slice_last 19 prev @ [w]"

text \<open>
  \<open>detectPose\<close> from the point where \<open>estimatePoses\<close> has returned the array
  \<open>pose\<close>; the earlier returns (no detector, video not ready) leave the state as it
  is. The test \<open>pose[0].score && pose[0].score > 0.3\<close> fails on a missing score.
\<close>

definition detectPose :: "'n arith \<Rightarrow> appState \<Rightarrow> pose list \<Rightarrow> appState" where
  "detectPose ops st poses =
     (case poses of
        [] \<Rightarrow> st
      | p # _ \<Rightarrow>
          (case pose_score p of
             None \<Rightarrow> st
           | Some s \<Rightarrow>
               if s \<noteq> 0 \<and> s > 0.3 then
                 let keypoints = pose_keypoints p;
                     act = determineActivity ops (previousPositions st) (wristPositions st)
                             keypoints;
                     st1 = st\<lparr>currentActivity := act\<rparr>;
                     st2 = (case findKeypoint keypoints ''nose'' of
                              None \<Rightarrow> st1
                            | Some n \<Rightarrow>
                                st1\<lparr>previousPositions :=
                                      appendPosition (previousPositions st1)
                                        \<lparr>pos_x = kp_x n, pos_y = kp_y n\<rparr>\<rparr>)
                 in (case findKeypoint keypoints ''left_wrist'' of
                       None \<Rightarrow> st2
                     | Some lw \<Rightarrow>
                         (case findKeypoint keypoints ''right_wrist'' of
                            None \<Rightarrow> st2
                          | Some rw \<Rightarrow>
                              st2\<lparr>wristPositions :=
                                    appendWrists (wristPositions st2)
                                      \<lparr>left = \<lparr>pos_x = kp_x lw, pos_y = kp_y lw\<rparr>,
                                       right = \<lparr>pos_x = kp_x rw, pos_y = kp_y rw\<rparr>\<rparr>\<rparr>))
               else st))"

section \<open>The rules and detectors as the specification words them\<close>

text \<open>
  The numbers of the specification are those the program computes, so these definitions
  take the same arithmetic. The average of a sequence is its sum, taken in order from 0,
  divided by its length.
\<close>

definition spec_average :: "'n arith \<Rightarrow> 'n list \<Rightarrow> 'n" where
  "spec_average ops vs =
     op_div ops (foldl (op_add ops) (op_num ops 0) vs) (op_num ops (real (length vs)))"

text \<open>Absolute differences of consecutive values of a coordinate.\<close>

definition spec_deltas :: "'n arith \<Rightarrow> ('a \<Rightarrow> real) \<Rightarrow> 'a list \<Rightarrow> 'n list" where
  "spec_deltas ops c xs =
     map (\<lambda>(a, b). op_abs ops (op_sub ops (op_num ops (c b)) (op_num ops (c a))))
       (zip xs (tl xs))"

text \<open>Euclidean distances of consecutive positions.\<close>

definition spec_distance :: "'n arith \<Rightarrow> position \<Rightarrow> position \<Rightarrow> 'n" where
  "spec_distance ops a b =
     op_sqrt ops
       (op_add ops (op_sq ops (op_sub ops (op_num ops (pos_x b)) (op_num ops (pos_x a))))
                   (op_sq ops (op_sub ops (op_num ops (pos_y b)) (op_num ops (pos_y a)))))"

definition spec_steps :: "'n arith \<Rightarrow> position list \<Rightarrow> 'n list" where
  "spec_steps ops xs = map (\<lambda>(a, b). spec_distance ops a b) (zip xs (tl xs))"

text \<open>
  A side waves: its average horizontal difference exceeds 20 and exceeds twice its
  average vertical difference.
\<close>

definition spec_sideWaving ::
  "'n arith \<Rightarrow> (wristPair \<Rightarrow> position) \<Rightarrow> wristPair list \<Rightarrow> bool" where
  "spec_sideWaving ops side recent =
     (op_gt ops (spec_average ops (spec_deltas ops (\<lambda>p. pos_x (side p)) recent))
        (op_num ops 20) \<and>
      op_gt ops (spec_average ops (spec_deltas ops (\<lambda>p. pos_x (side p)) recent))
        (op_mul ops (op_num ops 2)
           (spec_average ops (spec_deltas ops (\<lambda>p. pos_y (side p)) recent))))"

text \<open>
  The Raising Hands rule of the specification: each wrist at least 50 units above its
  shoulder (smaller \<open>y\<close> is higher).
\<close>

definition spec_raisingHands :: "body \<Rightarrow> bool" where
  "spec_raisingHands b =
     (kp_y (leftWrist b) \<le> kp_y (leftShoulder b) - 50 \<and>
      kp_y (rightWrist b) \<le> kp_y (rightShoulder b) - 50)"

section \<open>Auxiliary definitions\<close>

text \<open>The thirteen names \<open>determineActivity\<close> looks up, in the order of the source.\<close>

definition requiredNames :: "string list" where
  "requiredNames =
     [''nose'', ''left_shoulder'', ''right_shoulder'', ''left_elbow'', ''right_elbow'',
      ''left_wrist'', ''right_wrist'', ''left_hip'', ''right_hip'', ''left_knee'',
      ''right_knee'', ''left_ankle'', ''right_ankle'']"

text \<open>A function applied to each of the thirteen keypoints of a body.\<close>

definition mapBody :: "(keypoint \<Rightarrow> keypoint) \<Rightarrow> body \<Rightarrow> body" where
  "mapBody g b =
     \<lparr>nose = g (nose b), leftShoulder = g (leftShoulder b),
      rightShoulder = g (rightShoulder b), leftElbow = g (leftElbow b),
      rightElbow = g (rightElbow b), leftWrist = g (leftWrist b),
      rightWrist = g (rightWrist b), leftHip = g (leftHip b), rightHip = g (rightHip b),
      leftKnee = g (leftKnee b), rightKnee = g (rightKnee b), leftAnkle = g (leftAnkle b),
      rightAnkle = g (rightAnkle b)\<rparr>"

section \<open>Example inputs\<close>

text \<open>
  Arithmetic without rounding. In the examples below every value the detectors compute
  is a small integer, which IEEE 754 doubles compute exactly as well; on an empty
  history the detectors return false before any arithmetic.
\<close>

definition exactArith :: "real arith" where
  "exactArith =
     \<lparr>op_num = (\<lambda>r. r), op_add = (+), op_sub = (-), op_mul = (*), op_div = (/),
      op_sq = (\<lambda>a. a\<^sup>2), op_sqrt = sqrt, op_abs = abs, op_gt = (\<lambda>a b. a > b)\<rparr>"

text \<open>Five nose positions, each 20 units to the right of the one before.\<close>

definition walk :: "position list" where
  "walk = [\<lparr>pos_x = 0, pos_y = 0\<rparr>, \<lparr>pos_x = 20, pos_y = 0\<rparr>, \<lparr>pos_x = 40, pos_y = 0\<rparr>,
           \<lparr>pos_x = 60, pos_y = 0\<rparr>, \<lparr>pos_x = 80, pos_y = 0\<rparr>]"

text \<open>Ten wrist samples: the left wrist swings 30 units sideways every frame.\<close>

definition waveSample :: "real \<Rightarrow> wristPair" where
  "waveSample lx = \<lparr>left = \<lparr>pos_x = lx, pos_y = 0\<rparr>, right = \<lparr>pos_x = 0, pos_y = 0\<rparr>\<rparr>"

definition wave :: "wristPair list" where
  "wave = [waveSample 0, waveSample 30, waveSample 0, waveSample 30, waveSample 0,
           waveSample 30, waveSample 0, waveSample 30, waveSample 0, waveSample 30]"

text \<open>A keypoint of a given name and position, with confidence 1.\<close>

definition mkKeypoint :: "string \<Rightarrow> real \<Rightarrow> real \<Rightarrow> keypoint" where
  "mkKeypoint n x y = \<lparr>kp_x = x, kp_y = y, kp_score = 1, kp_name = n\<rparr>"

text \<open>
  A seated figure: thighs horizontal, shins and torso vertical (knee and hip angles of 90
  degrees), shoulders level at \<open>y = 200\<close>, nose at \<open>y = 100\<close> (higher in the image
  than the shoulders), wrists at hip height.
\<close>

definition seatedFrame :: "keypoint list" where
  "seatedFrame =
     [mkKeypoint ''nose'' 230 100,
      mkKeypoint ''left_shoulder'' 200 200, mkKeypoint ''right_shoulder'' 260 200,
      mkKeypoint ''left_elbow'' 200 250, mkKeypoint ''right_elbow'' 260 250,
      mkKeypoint ''left_wrist'' 200 300, mkKeypoint ''right_wrist'' 260 300,
      mkKeypoint ''left_hip'' 200 300, mkKeypoint ''right_hip'' 260 300,
      mkKeypoint ''left_knee'' 100 300, mkKeypoint ''right_knee'' 160 300,
      mkKeypoint ''left_ankle'' 100 400, mkKeypoint ''right_ankle'' 160 400]"

definition seatedBody :: body where
  "seatedBody =
     \<lparr>nose = mkKeypoint ''nose'' 230 100,
      leftShoulder = mkKeypoint ''left_shoulder'' 200 200,
      rightShoulder = mkKeypoint ''right_shoulder'' 260 200,
      leftElbow = mkKeypoint ''left_elbow'' 200 250,
      rightElbow = mkKeypoint ''right_elbow'' 260 250,
      leftWrist = mkKeypoint ''left_wrist'' 200 300,
      rightWrist = mkKeypoint ''right_wrist'' 260 300,
      leftHip = mkKeypoint ''left_hip'' 200 300,
      rightHip = mkKeypoint ''right_hip'' 260 300,
      leftKnee = mkKeypoint ''left_knee'' 100 300,
      rightKnee = mkKeypoint ''right_knee'' 160 300,
      leftAnkle = mkKeypoint ''left_ankle'' 100 400,
      rightAnkle = mkKeypoint ''right_ankle'' 160 400\<rparr>"

text \<open>
  An upright figure with straight legs and both wrists 60 units higher in the image than
  the shoulders.
\<close>

definition raisedFrame :: "keypoint list" where
  "raisedFrame =
     [mkKeypoint ''nose'' 230 100,
      mkKeypoint ''left_shoulder'' 200 200, mkKeypoint ''right_shoulder'' 260 200,
      mkKeypoint ''left_elbow'' 200 170, mkKeypoint ''right_elbow'' 260 170,
      mkKeypoint ''left_wrist'' 200 140, mkKeypoint ''right_wrist'' 260 140,
      mkKeypoint ''left_hip'' 200 300, mkKeypoint ''right_hip'' 260 300,
      mkKeypoint ''left_knee'' 200 400, mkKeypoint ''right_knee'' 260 400,
      mkKeypoint ''left_ankle'' 200 500, mkKeypoint ''right_ankle'' 260 500]"

definition raisedBody :: body where
  "raisedBody =
     \<lparr>nose = mkKeypoint ''nose'' 230 100,
      leftShoulder = mkKeypoint ''left_shoulder'' 200 200,
      rightShoulder = mkKeypoint ''right_shoulder'' 260 200,
      leftElbow = mkKeypoint ''left_elbow'' 200 170,
      rightElbow = mkKeypoint ''right_elbow'' 260 170,
      leftWrist = mkKeypoint ''left_wrist'' 200 140,
      rightWrist = mkKeypoint ''right_wrist'' 260 140,
      leftHip = mkKeypoint ''left_hip'' 200 300,
      rightHip = mkKeypoint ''right_hip'' 260 300,
      leftKnee = mkKeypoint ''left_knee'' 200 400,
      rightKnee = mkKeypoint ''right_knee'' 260 400,
      leftAnkle = mkKeypoint ''left_ankle'' 200 500,
      rightAnkle = mkKeypoint ''right_ankle'' 260 500\<rparr>"

text \<open>The upright figure with both wrists exactly 50 units above the shoulders.\<close>

definition edgeFrame :: "keypoint list" where
  "edgeFrame =
     [mkKeypoint ''nose'' 230 100,
      mkKeypoint ''left_shoulder'' 200 200, mkKeypoint ''right_shoulder'' 260 200,
      mkKeypoint ''left_elbow'' 200 170, mkKeypoint ''right_elbow'' 260 170,
      mkKeypoint ''left_wrist'' 200 150, mkKeypoint ''right_wrist'' 260 150,
      mkKeypoint ''left_hip'' 200 300, mkKeypoint ''right_hip'' 260 300,
      mkKeypoint ''left_knee'' 200 400, mkKeypoint ''right_knee'' 260 400,
      mkKeypoint ''left_ankle'' 200 500, mkKeypoint ''right_ankle'' 260 500]"

definition edgeBody :: body where
  "edgeBody =
     \<lparr>nose = mkKeypoint ''nose'' 230 100,
      leftShoulder = mkKeypoint ''left_shoulder'' 200 200,
      rightShoulder = mkKeypoint ''right_shoulder'' 260 200,
      leftElbow = mkKeypoint ''left_elbow'' 200 170,
      rightElbow = mkKeypoint ''right_elbow'' 260 170,
      leftWrist = mkKeypoint ''left_wrist'' 200 150,
      rightWrist = mkKeypoint ''right_wrist'' 260 150,
      leftHip = mkKeypoint ''left_hip'' 200 300,
      rightHip = mkKeypoint ''right_hip'' 260 300,
      leftKnee = mkKeypoint ''left_knee'' 200 400,
      rightKnee = mkKeypoint ''right_knee'' 260 400,
      leftAnkle = mkKeypoint ''left_ankle'' 200 500,
      rightAnkle = mkKeypoint ''right_ankle'' 260 500\<rparr>"

text \<open>The upright figure without its \<open>right_ankle\<close>, and a pose that carries it.\<close>

definition noAnkleFrame :: "keypoint list" where
  "noAnkleFrame = filter (\<lambda>k. kp_name k \<noteq> ''right_ankle'') raisedFrame"

definition noAnklePose :: pose where
  "noAnklePose = \<lparr>pose_score = Some 0.9, pose_keypoints = noAnkleFrame\<rparr>"

text \<open>The upright figure with every keypoint's confidence set to 0.\<close>

definition dimFrame :: "keypoint list" where
  "dimFrame = map (\<lambda>k. k\<lparr>kp_score := 0\<rparr>) raisedFrame"

text \<open>All thirteen keypoints at the origin.\<close>

definition pointFrame :: "keypoint list" where
  "pointFrame = map (\<lambda>n. mkKeypoint n 0 0) requiredNames"

definition pointBody :: body where
  "pointBody =
     \<lparr>nose = mkKeypoint ''nose'' 0 0,
      leftShoulder = mkKeypoint ''left_shoulder'' 0 0,
      rightShoulder = mkKeypoint ''right_shoulder'' 0 0,
      leftElbow = mkKeypoint ''left_elbow'' 0 0,
      rightElbow = mkKeypoint ''right_elbow'' 0 0,
      leftWrist = mkKeypoint ''left_wrist'' 0 0,
      rightWrist = mkKeypoint ''right_wrist'' 0 0,
      leftHip = mkKeypoint ''left_hip'' 0 0,
      rightHip = mkKeypoint ''right_hip'' 0 0,
      leftKnee = mkKeypoint ''left_knee'' 0 0,
      rightKnee = mkKeypoint ''right_knee'' 0 0,
      leftAnkle = mkKeypoint ''left_ankle'' 0 0,
      rightAnkle = mkKeypoint ''right_ankle'' 0 0\<rparr>"

section \<open>Range of the angle\<close>

lemma atan2_bounds: "- pi < atan2 y x \<and> atan2 y x \<le> pi"
proof -
  have lo: "- (pi / 2) < arctan (y / x)" by (rule arctan_lbound)
  have hi: "arctan (y / x) < pi / 2" by (rule arctan_ubound)
  have neg: "x < 0 \<Longrightarrow> 0 \<le> y \<Longrightarrow> arctan (y / x) \<le> 0"
    by (simp add: arctan_le_zero_iff divide_nonneg_neg)
  have pos: "x < 0 \<Longrightarrow> y < 0 \<Longrightarrow> 0 < arctan (y / x)"
    by (simp add: zero_less_arctan_iff divide_neg_neg)
  show ?thesis
    using lo hi neg pos pi_gt_zero unfolding atan2_def
    by (auto simp: not_less)
qed

lemma reflect_range:
  fixes r :: real
  assumes "\<bar>r\<bar> < 2 * pi"
  shows "0 \<le> (if \<bar>(r * 180) / pi\<bar> > 180 then 360 - \<bar>(r * 180) / pi\<bar> else \<bar>(r * 180) / pi\<bar>)
       \<and> (if \<bar>(r * 180) / pi\<bar> > 180 then 360 - \<bar>(r * 180) / pi\<bar> else \<bar>(r * 180) / pi\<bar>) \<le> 180"
proof -
  have eq: "\<bar>(r * 180) / pi\<bar> = \<bar>r\<bar> * 180 / pi"
    using pi_gt_zero by (simp add: abs_mult)
  have "\<bar>r\<bar> * 180 / pi < 360"
    using assms pi_gt_zero by (simp add: field_simps)
  then show ?thesis unfolding eq by auto
qed

text \<open>
  Claim C9. For every triple of points \<open>calculateAngle\<close> returns a value in the closed
  interval from 0 to 180, and at three coincident points it returns 0 (both \<open>atan2\<close>
  are \<open>atan2 0 0 = 0\<close>). Coordinates are real numbers: finite, without rounding.
\<close>

theorem calculateAngle_range:
  "0 \<le> calculateAngle p1 p2 p3 \<and> calculateAngle p1 p2 p3 \<le> 180 \<and> calculateAngle p p p = 0"
proof -
  define a where "a = atan2 (kp_y p3 - kp_y p2) (kp_x p3 - kp_x p2)"
  define b where "b = atan2 (kp_y p1 - kp_y p2) (kp_x p1 - kp_x p2)"
  have "- pi < a" "a \<le> pi" "- pi < b" "b \<le> pi"
    using atan2_bounds by (simp_all add: a_def b_def)
  then have "\<bar>a - b\<bar> < 2 * pi" by linarith
  note rng = reflect_range [OF this]
  have "calculateAngle p1 p2 p3 =
          (if \<bar>((a - b) * 180) / pi\<bar> > 180 then 360 - \<bar>((a - b) * 180) / pi\<bar>
           else \<bar>((a - b) * 180) / pi\<bar>)"
    unfolding calculateAngle_def Let_def a_def b_def by (rule refl)
  with rng have "0 \<le> calculateAngle p1 p2 p3 \<and> calculateAngle p1 p2 p3 \<le> 180"
    by (simp only:)
  moreover have "calculateAngle p p p = 0"
    by (simp add: calculateAngle_def)
  ultimately show ?thesis by simp
qed

section \<open>The unused parameter of \<open>isMoving\<close>\<close>

text \<open>
  Claim C10. \<open>isMoving\<close> never reads its parameter \<open>currentPos\<close>: for every position
  history, any two arguments give the same result.
\<close>

theorem isMoving_ignores_currentPos: "isMoving ops prevs p = isMoving ops prevs q"
  by (simp add: isMoving_def)

section \<open>The history buffers\<close>

lemma slice_append_step:
  "js_slice_last n (drop (length xs - Suc n) xs) @ [x] =
     drop (length (xs @ [x]) - Suc n) (xs @ [x])"
proof (cases "Suc n \<le> length xs")
  case True
  then have "length xs - Suc n + 1 = length xs - n" by arith
  with True show ?thesis
    by (simp add: js_slice_last_def add.commute)
next
  case False
  then show ?thesis
    by (simp add: js_slice_last_def)
qed

lemma foldl_appendPosition: "foldl appendPosition [] xs = drop (length xs - 10) xs"
proof (induction xs rule: rev_induct)
  case Nil
  then show ?case by simp
next
  case (snoc x xs)
  have "foldl appendPosition [] (xs @ [x]) = appendPosition (drop (length xs - 10) xs) x"
    using snoc by simp
  also have "\<dots> = drop (length (xs @ [x]) - 10) (xs @ [x])"
    using slice_append_step [of 9 xs x] by (simp add: appendPosition_def)
  finally show ?case .
qed

lemma foldl_appendWrists: "foldl appendWrists [] xs = drop (length xs - 20) xs"
proof (induction xs rule: rev_induct)
  case Nil
  then show ?case by simp
next
  case (snoc x xs)
  have "foldl appendWrists [] (xs @ [x]) = appendWrists (drop (length xs - 20) xs) x"
    using snoc by simp
  also have "\<dots> = drop (length (xs @ [x]) - 20) (xs @ [x])"
    using slice_append_step [of 19 xs x] by (simp add: appendWrists_def)
  finally show ?case .
qed

lemma appendPosition_length: "length (appendPosition prev p) \<le> 10"
  by (simp add: appendPosition_def js_slice_last_def)

lemma appendWrists_length: "length (appendWrists prev w) \<le> 20"
  by (simp add: appendWrists_def js_slice_last_def)

lemma detectPose_previousPositions:
  "length (previousPositions st) \<le> 10 \<Longrightarrow>
   length (previousPositions (detectPose ops st poses)) \<le> 10"
  using appendPosition_length
  by (simp add: detectPose_def Let_def split: list.splits option.splits)

lemma detectPose_wristPositions:
  "length (wristPositions st) \<le> 20 \<Longrightarrow>
   length (wristPositions (detectPose ops st poses)) \<le> 20"
  using appendWrists_length
  by (simp add: detectPose_def Let_def split: list.splits option.splits)

lemma detectPose_run_bounded:
  "length (previousPositions st) \<le> 10 \<Longrightarrow> length (wristPositions st) \<le> 20 \<Longrightarrow>
   length (previousPositions (foldl (detectPose ops) st frames)) \<le> 10 \<and>
   length (wristPositions (foldl (detectPose ops) st frames)) \<le> 20"
proof (induction frames arbitrary: st)
  case Nil
  then show ?case by simp
next
  case (Cons f frames)
  show ?case
    using Cons.IH [of "detectPose ops st f"] Cons.prems
      detectPose_previousPositions [of st ops f] detectPose_wristPositions [of st ops f]
    by simp
qed

text \<open>
  Claim C8. Starting from the empty history, after appending any sequence of samples the
  position history holds its last 10 samples and the wrist history its last 20, in the
  order appended (the oldest are dropped first), so neither exceeds its capacity; and
  after any run of classification cycles from the initial state the two histories hold
  at most 10 and 20 samples.
\<close>

theorem history_bounded_fifo:
  "length (foldl appendPosition [] ps) \<le> 10 \<and>
   foldl appendPosition [] ps = drop (length ps - 10) ps \<and>
   length (foldl appendWrists [] ws) \<le> 20 \<and>
   foldl appendWrists [] ws = drop (length ws - 20) ws \<and>
   length (previousPositions (foldl (detectPose ops) initialState frames)) \<le> 10 \<and>
   length (wristPositions (foldl (detectPose ops) initialState frames)) \<le> 20"
proof -
  have "length (previousPositions (foldl (detectPose ops) initialState frames)) \<le> 10 \<and>
        length (wristPositions (foldl (detectPose ops) initialState frames)) \<le> 20"
    by (rule detectPose_run_bounded) (simp_all add: initialState_def)
  moreover have "length (drop (length ps - 10) ps) \<le> 10"
    unfolding length_drop by arith
  moreover have "length (drop (length ws - 20) ws) \<le> 20"
    unfolding length_drop by arith
  ultimately show ?thesis
    by (simp only: foldl_appendPosition foldl_appendWrists simp_thms)
qed

section \<open>The motion detectors against their specification\<close>

lemma reduce_index_fold:
  "foldl (\<lambda>acc idx. if idx = 0 then z else f acc (h idx)) z [0..<n] =
     foldl f z (map h [1..<n])"
proof (induction n)
  case 0
  then show ?case by simp
next
  case (Suc n)
  then show ?case by (cases "n = 0") simp_all
qed

lemma upt_1_Suc: "[1..<n] = map Suc [0..<n - 1]"
  by (rule nth_equalityI) auto

lemma spec_steps_nth:
  "spec_steps ops xs = map (\<lambda>i. spec_distance ops (xs ! i) (xs ! Suc i)) [0..<length xs - 1]"
  by (rule nth_equalityI) (auto simp: spec_steps_def nth_tl)

lemma spec_deltas_nth:
  "spec_deltas ops c xs =
     map (\<lambda>i. op_abs ops (op_sub ops (op_num ops (c (xs ! Suc i))) (op_num ops (c (xs ! i)))))
       [0..<length xs - 1]"
  by (rule nth_equalityI) (auto simp: spec_deltas_def nth_tl)

lemma wristChanges_spec: "wristChanges ops c arr = spec_deltas ops c arr"
  unfolding spec_deltas_nth
  by (rule nth_equalityI) (auto simp: wristChanges_def)

lemma reduce_spec_steps:
  "foldl (\<lambda>acc idx.
            if idx = 0 then op_num ops 0
            else
              let pos = r ! idx; prevPos = r ! (idx - 1)
              in op_add ops acc
                   (op_sqrt ops
                     (op_add ops
                       (op_sq ops (op_sub ops (op_num ops (pos_x pos)) (op_num ops (pos_x prevPos))))
                       (op_sq ops (op_sub ops (op_num ops (pos_y pos)) (op_num ops (pos_y prevPos)))))))
         (op_num ops 0) [0..<length r] =
   foldl (op_add ops) (op_num ops 0) (spec_steps ops r)"
proof -
  let ?h = "\<lambda>idx. spec_distance ops (r ! (idx - 1)) (r ! idx)"
  have m: "map ?h [1..<length r] = spec_steps ops r"
    unfolding spec_steps_nth upt_1_Suc [of "length r"] by (simp add: comp_def)
  have "foldl (\<lambda>acc idx. if idx = 0 then op_num ops 0 else op_add ops acc (?h idx))
          (op_num ops 0) [0..<length r] =
        foldl (op_add ops) (op_num ops 0) (spec_steps ops r)"
    unfolding m [symmetric]
    by (rule reduce_index_fold [of "op_num ops 0" "op_add ops" ?h "length r"])
  then show ?thesis
    unfolding Let_def spec_distance_def .
qed

lemma length_spec_steps: "length (spec_steps ops xs) = length xs - 1"
  by (simp add: spec_steps_nth)

lemma length_spec_deltas: "length (spec_deltas ops c xs) = length xs - 1"
  by (simp add: spec_deltas_nth)

lemma foldl_plus_sum_list: "foldl (+) a xs = a + sum_list (xs :: real list)"
  by (induction xs arbitrary: a) simp_all

lemma spec_average_exact: "spec_average exactArith vs = sum_list vs / real (length vs)"
  by (simp add: spec_average_def exactArith_def foldl_plus_sum_list)

text \<open>
  Claim C7. \<open>isMoving\<close> returns false on every position history with fewer than 5
  samples; on a history with at least 5 it looks at the last 5, which give 4 distances of
  consecutive positions, and returns true exactly when their average exceeds 15. The
  distances, their sum and the average are the numbers the program computes, in any
  arithmetic.
\<close>

theorem isMoving_spec:
  "(length prevs < 5 \<longrightarrow> \<not> isMoving ops prevs p) \<and>
   (5 \<le> length prevs \<longrightarrow>
      length (spec_steps ops (drop (length prevs - 5) prevs)) = 4 \<and>
      (isMoving ops prevs p \<longleftrightarrow>
         op_gt ops (spec_average ops (spec_steps ops (drop (length prevs - 5) prevs)))
           (op_num ops 15)))"
proof (intro conjI impI)
  assume "length prevs < 5"
  then show "\<not> isMoving ops prevs p" by (simp add: isMoving_def)
next
  assume "5 \<le> length prevs"
  then show "length (spec_steps ops (drop (length prevs - 5) prevs)) = 4"
    by (simp add: length_spec_steps)
next
  assume len: "5 \<le> length prevs"
  let ?r = "drop (length prevs - 5) prevs"
  have ge: "\<not> length prevs < 5" using len by simp
  show "isMoving ops prevs p \<longleftrightarrow>
          op_gt ops (spec_average ops (spec_steps ops ?r)) (op_num ops 15)"
    unfolding isMoving_def js_slice_last_def spec_average_def length_spec_steps
      reduce_spec_steps [unfolded Let_def] Let_def
    by (simp only: ge if_False)
qed

theorem isMoving_spec_witness:
  "length ([] :: position list) < 5 \<and> \<not> isMoving exactArith [] \<lparr>pos_x = 0, pos_y = 0\<rparr> \<and>
   5 \<le> length walk \<and> isMoving exactArith walk \<lparr>pos_x = 0, pos_y = 0\<rparr>"
proof -
  have s: "sqrt 400 = (20::real)"
    by (rule real_sqrt_unique) simp_all
  have "op_gt exactArith (spec_average exactArith (spec_steps exactArith (drop (length walk - 5) walk)))
          (op_num exactArith 15)"
    by (simp add: walk_def spec_average_def spec_steps_def spec_distance_def exactArith_def s)
  then show ?thesis
    using isMoving_spec [where ops = exactArith and prevs = "[]" and p = "\<lparr>pos_x = 0, pos_y = 0\<rparr>"]
      isMoving_spec [where ops = exactArith and prevs = walk and p = "\<lparr>pos_x = 0, pos_y = 0\<rparr>"]
    by (simp add: walk_def)
qed

text \<open>
  Claim C6. \<open>isWaving\<close> returns false on every wrist history with fewer than 10
  samples; on a history with at least 10 it looks at the last 10, which give 9 absolute
  horizontal and 9 absolute vertical differences per side. A side waves exactly when the
  average of its horizontal differences exceeds 20 and exceeds twice the average of its
  vertical differences, and the result is true exactly when one of the sides waves. The
  differences, their sums and the averages are the numbers the program computes, in any
  arithmetic.
\<close>

theorem isWaving_spec:
  "(length h < 10 \<longrightarrow> \<not> isWaving ops h) \<and>
   (10 \<le> length h \<longrightarrow>
      length (spec_deltas ops (\<lambda>p. pos_x (left p)) (drop (length h - 10) h)) = 9 \<and>
      length (spec_deltas ops (\<lambda>p. pos_y (left p)) (drop (length h - 10) h)) = 9 \<and>
      length (spec_deltas ops (\<lambda>p. pos_x (right p)) (drop (length h - 10) h)) = 9 \<and>
      length (spec_deltas ops (\<lambda>p. pos_y (right p)) (drop (length h - 10) h)) = 9 \<and>
      (isWaving ops h \<longleftrightarrow>
         spec_sideWaving ops left (drop (length h - 10) h) \<or>
         spec_sideWaving ops right (drop (length h - 10) h)))"
proof (intro conjI impI)
  assume "length h < 10"
  then show "\<not> isWaving ops h" by (simp add: isWaving_def)
next
  assume len: "10 \<le> length h"
  have ge: "\<not> length h < 10" using len by simp
  show "isWaving ops h \<longleftrightarrow>
         spec_sideWaving ops left (drop (length h - 10) h) \<or>
         spec_sideWaving ops right (drop (length h - 10) h)"
    unfolding isWaving_def Let_def js_slice_last_def wristChanges_spec
      spec_sideWaving_def spec_average_def
    by (simp only: ge if_False)
qed (simp_all add: length_spec_deltas)

theorem isWaving_spec_witness:
  "length ([] :: wristPair list) < 10 \<and> \<not> isWaving exactArith [] \<and>
   10 \<le> length wave \<and> isWaving exactArith wave"
proof -
  have "spec_sideWaving exactArith left (drop (length wave - 10) wave)"
    by (simp add: wave_def waveSample_def spec_sideWaving_def spec_average_def spec_deltas_def
        exactArith_def)
  then show ?thesis
    using isWaving_spec [where ops = exactArith and h = "[]"]
      isWaving_spec [where ops = exactArith and h = wave]
    by (simp add: wave_def)
qed

section \<open>The example frames\<close>

lemma atan2_axis:
  "0 < y \<Longrightarrow> atan2 y 0 = pi / 2"
  "y < 0 \<Longrightarrow> atan2 y 0 = - (pi / 2)"
  "0 < x \<Longrightarrow> atan2 0 x = 0"
  "x < 0 \<Longrightarrow> atan2 0 x = pi"
  by (simp_all add: atan2_def)

lemma sqrt_10000: "sqrt 10000 = (100::real)"
  by (rule real_sqrt_unique) simp_all

lemma required_seatedFrame: "requiredKeypoints seatedFrame = Some seatedBody"
  by (simp add: requiredKeypoints_def findKeypoint_def seatedFrame_def seatedBody_def
      mkKeypoint_def)

lemma seated_angles:
  "leftKneeAngle seatedBody = 90" "rightKneeAngle seatedBody = 90"
  "leftHipAngle seatedBody = 90" "rightHipAngle seatedBody = 90"
  by (simp_all add: leftKneeAngle_def rightKneeAngle_def leftHipAngle_def rightHipAngle_def
      calculateAngle_def seatedBody_def mkKeypoint_def atan2_axis)

lemma seated_dists:
  "shoulderHipDist seatedBody = 100" "hipKneeDist seatedBody = 100"
  "kneeAnkleDist seatedBody = 100"
  by (simp_all add: shoulderHipDist_def hipKneeDist_def kneeAnkleDist_def
      calculateDistance_def seatedBody_def mkKeypoint_def sqrt_10000)

lemma required_raisedFrame: "requiredKeypoints raisedFrame = Some raisedBody"
  by (simp add: requiredKeypoints_def findKeypoint_def raisedFrame_def raisedBody_def
      mkKeypoint_def)

lemma raised_angles: "leftKneeAngle raisedBody = 180" "rightKneeAngle raisedBody = 180"
  by (simp_all add: leftKneeAngle_def rightKneeAngle_def calculateAngle_def raisedBody_def
      mkKeypoint_def atan2_axis)

lemma raised_dists:
  "shoulderHipDist raisedBody = 100" "hipKneeDist raisedBody = 100"
  "kneeAnkleDist raisedBody = 100"
  by (simp_all add: shoulderHipDist_def hipKneeDist_def kneeAnkleDist_def
      calculateDistance_def raisedBody_def mkKeypoint_def sqrt_10000)

lemma raised_standing:
  "isStanding raisedBody (shoulderHipRatio raisedBody) (hipKneeRatio raisedBody)"
proof -
  have ratios: "shoulderHipRatio raisedBody = Num (1 / 3)" "hipKneeRatio raisedBody = Num (1 / 3)"
    by (simp_all add: shoulderHipRatio_def hipKneeRatio_def totalHeight_def raised_dists js_div_def)
  show ?thesis
    unfolding ratios by (simp add: isStanding_def raised_angles) (simp add: raisedBody_def mkKeypoint_def)
qed

lemma raised_arms: "armsRaised raisedBody"
  by (simp add: armsRaised_def raisedBody_def mkKeypoint_def)

section \<open>The rule chain\<close>

lemma required_empty: "requiredKeypoints [] = None"
  by (simp add: requiredKeypoints_def findKeypoint_def)

lemma required_nonempty: "requiredKeypoints kps = Some b \<Longrightarrow> kps \<noteq> []"
  using required_empty by auto

lemma determineActivity_rules:
  "requiredKeypoints kps = Some b \<Longrightarrow>
   determineActivity ops prevs wrists kps =
     applyRules ops prevs wrists b (shoulderHipRatio b) (hipKneeRatio b)"
  using required_nonempty [of kps b] by (simp add: determineActivity_def)

text \<open>
  Claim C5, amended. For every frame with all required keypoints, if both wrists are
  more than 50 units above their shoulders (\<open>wrist.y < shoulder.y - 50\<close>; exactly 50 is not
  enough) and the conditions of Standing hold, the result is Raising Hands. Raising Hands
  is returned exactly on that strict test, and each other label exactly when its rule
  matches and no rule before it does, in the order Raising Hands, Waving, Squatting,
  Sitting, Movement, Standing, Stable.
\<close>

theorem first_matching_rule_wins:
  assumes "requiredKeypoints kps = Some b"
  defines "shr \<equiv> shoulderHipRatio b" and "hkr \<equiv> hipKneeRatio b"
    and "cur \<equiv> \<lparr>pos_x = kp_x (nose b), pos_y = kp_y (nose b)\<rparr>"
  shows
    "(kp_y (leftWrist b) < kp_y (leftShoulder b) - 50 \<and>
      kp_y (rightWrist b) < kp_y (rightShoulder b) - 50 \<and> isStanding b shr hkr \<longrightarrow>
        determineActivity ops prevs wrists kps = RaisingHands) \<and>
     (determineActivity ops prevs wrists kps = RaisingHands \<longleftrightarrow>
        kp_y (leftWrist b) < kp_y (leftShoulder b) - 50 \<and>
        kp_y (rightWrist b) < kp_y (rightShoulder b) - 50) \<and>
     (determineActivity ops prevs wrists kps = Waving \<longleftrightarrow>
        \<not> armsRaised b \<and> isWaving ops wrists) \<and>
     (determineActivity ops prevs wrists kps = Squatting \<longleftrightarrow>
        \<not> armsRaised b \<and> \<not> isWaving ops wrists \<and> isSquatting b) \<and>
     (determineActivity ops prevs wrists kps = Sitting \<longleftrightarrow>
        \<not> armsRaised b \<and> \<not> isWaving ops wrists \<and> \<not> isSquatting b \<and> isSitting b shr hkr) \<and>
     (determineActivity ops prevs wrists kps = Movement \<longleftrightarrow>
        \<not> armsRaised b \<and> \<not> isWaving ops wrists \<and> \<not> isSquatting b \<and>
        \<not> isSitting b shr hkr \<and> isMoving ops prevs cur) \<and>
     (determineActivity ops prevs wrists kps = Standing \<longleftrightarrow>
        \<not> armsRaised b \<and> \<not> isWaving ops wrists \<and> \<not> isSquatting b \<and>
        \<not> isSitting b shr hkr \<and> \<not> isMoving ops prevs cur \<and> isStanding b shr hkr) \<and>
     (determineActivity ops prevs wrists kps = Stable \<longleftrightarrow>
        \<not> armsRaised b \<and> \<not> isWaving ops wrists \<and> \<not> isSquatting b \<and>
        \<not> isSitting b shr hkr \<and> \<not> isMoving ops prevs cur \<and> \<not> isStanding b shr hkr)"
proof -
  define A where "A = armsRaised b"
  define W where "W = isWaving ops wrists"
  define Q where "Q = isSquatting b"
  define S where "S = isSitting b shr hkr"
  define M where "M = isMoving ops prevs cur"
  define T where "T = isStanding b shr hkr"
  have r: "determineActivity ops prevs wrists kps =
             (if A then RaisingHands else if W then Waving else if Q then Squatting
              else if S then Sitting else if M then Movement else if T then Standing
              else Stable)"
    unfolding determineActivity_rules [OF assms(1)] applyRules_def
      A_def W_def Q_def S_def M_def T_def shr_def hkr_def cur_def ..
  have a: "kp_y (leftWrist b) < kp_y (leftShoulder b) - 50 \<and>
           kp_y (rightWrist b) < kp_y (rightShoulder b) - 50 \<longleftrightarrow> A"
    by (simp add: A_def armsRaised_def)
  show ?thesis
    unfolding r conj_assoc [symmetric] a
    unfolding conj_assoc A_def [symmetric] W_def [symmetric] Q_def [symmetric]
      S_def [symmetric] M_def [symmetric] T_def [symmetric]
    by (cases A; cases W; cases Q; cases S; cases M; cases T; simp)
qed

theorem first_matching_rule_wins_witness:
  "requiredKeypoints raisedFrame = Some raisedBody \<and>
   kp_y (leftWrist raisedBody) < kp_y (leftShoulder raisedBody) - 50 \<and>
   kp_y (rightWrist raisedBody) < kp_y (rightShoulder raisedBody) - 50 \<and>
   isStanding raisedBody (shoulderHipRatio raisedBody) (hipKneeRatio raisedBody) \<and>
   determineActivity exactArith [] [] raisedFrame = RaisingHands"
  using first_matching_rule_wins [OF required_raisedFrame,
      where ops = exactArith and prevs = "[]" and wrists = "[]"]
    required_raisedFrame raised_arms raised_standing
  by (simp add: armsRaised_def)

lemma required_edgeFrame: "requiredKeypoints edgeFrame = Some edgeBody"
  by (simp add: requiredKeypoints_def findKeypoint_def edgeFrame_def edgeBody_def
      mkKeypoint_def)

lemma edge_angles: "leftKneeAngle edgeBody = 180" "rightKneeAngle edgeBody = 180"
  by (simp_all add: leftKneeAngle_def rightKneeAngle_def calculateAngle_def edgeBody_def
      mkKeypoint_def atan2_axis)

lemma edge_dists:
  "shoulderHipDist edgeBody = 100" "hipKneeDist edgeBody = 100"
  "kneeAnkleDist edgeBody = 100"
  by (simp_all add: shoulderHipDist_def hipKneeDist_def kneeAnkleDist_def
      calculateDistance_def edgeBody_def mkKeypoint_def sqrt_10000)

lemma edge_standing:
  "isStanding edgeBody (shoulderHipRatio edgeBody) (hipKneeRatio edgeBody)"
proof -
  have ratios: "shoulderHipRatio edgeBody = Num (1 / 3)" "hipKneeRatio edgeBody = Num (1 / 3)"
    by (simp_all add: shoulderHipRatio_def hipKneeRatio_def totalHeight_def edge_dists js_div_def)
  show ?thesis
    unfolding ratios
    by (simp add: isStanding_def edge_angles) (simp add: edgeBody_def mkKeypoint_def)
qed

text \<open>
  Claim C5 as stated fails: with both wrists exactly 50 units above the shoulders the
  frame satisfies the Raising Hands rule of the specification (at least 50 units above)
  and the conditions of Standing, and the result is Standing.
\<close>

theorem raising_hands_boundary_standing:
  "requiredKeypoints edgeFrame = Some edgeBody \<and>
   spec_raisingHands edgeBody \<and>
   isStanding edgeBody (shoulderHipRatio edgeBody) (hipKneeRatio edgeBody) \<and>
   determineActivity exactArith [] [] edgeFrame = Standing"
proof -
  have spec: "spec_raisingHands edgeBody"
    by (simp add: spec_raisingHands_def edgeBody_def mkKeypoint_def)
  have no: "\<not> armsRaised edgeBody" "\<not> isWaving exactArith []" "\<not> isSquatting edgeBody"
    "\<not> isSitting edgeBody (shoulderHipRatio edgeBody) (hipKneeRatio edgeBody)"
    "\<not> isMoving exactArith []
         \<lparr>pos_x = kp_x (nose edgeBody), pos_y = kp_y (nose edgeBody)\<rparr>"
    by (simp_all add: armsRaised_def isWaving_def isSquatting_def isSitting_def isMoving_def
        edge_angles) (simp add: edgeBody_def mkKeypoint_def)
  have "determineActivity exactArith [] [] edgeFrame = Standing"
    unfolding determineActivity_rules [OF required_edgeFrame] applyRules_def
    by (simp only: no edge_standing if_False if_True)
  then show ?thesis
    using spec edge_standing required_edgeFrame by simp
qed

section \<open>Missing keypoints and confidence scores\<close>

lemma required_None_iff:
  "requiredKeypoints kps = None \<longleftrightarrow> (\<exists>n\<in>set requiredNames. findKeypoint kps n = None)"
  by (simp add: requiredKeypoints_def Let_def requiredNames_def)

lemma missing_required:
  assumes "n \<in> set requiredNames" and "findKeypoint kps n = None"
  shows "requiredKeypoints kps = None"
  unfolding required_None_iff using assms by blast

lemma findKeypoint_map:
  assumes "\<And>k. kp_name (g k) = kp_name k"
  shows "findKeypoint (map g kps) n = map_option g (findKeypoint kps n)"
  by (induction kps) (simp_all add: findKeypoint_def assms)

lemma requiredKeypoints_map:
  assumes "\<And>k. kp_name (g k) = kp_name k"
  shows "requiredKeypoints (map g kps) = map_option (mapBody g) (requiredKeypoints kps)"
proof (cases "requiredKeypoints kps")
  case None
  then obtain n where n: "n \<in> set requiredNames" "findKeypoint kps n = None"
    unfolding required_None_iff by blast
  then have "findKeypoint (map g kps) n = None"
    by (simp add: findKeypoint_map [OF assms])
  with n(1) have "requiredKeypoints (map g kps) = None" by (rule missing_required)
  with None show ?thesis by simp
next
  case (Some b)
  have all: "\<And>n. n \<in> set requiredNames \<Longrightarrow> findKeypoint kps n \<noteq> None"
    using Some required_None_iff [of kps] by auto
  have pres: "findKeypoint kps ''nose'' \<noteq> None" "findKeypoint kps ''left_shoulder'' \<noteq> None"
    "findKeypoint kps ''right_shoulder'' \<noteq> None" "findKeypoint kps ''left_elbow'' \<noteq> None"
    "findKeypoint kps ''right_elbow'' \<noteq> None" "findKeypoint kps ''left_wrist'' \<noteq> None"
    "findKeypoint kps ''right_wrist'' \<noteq> None" "findKeypoint kps ''left_hip'' \<noteq> None"
    "findKeypoint kps ''right_hip'' \<noteq> None" "findKeypoint kps ''left_knee'' \<noteq> None"
    "findKeypoint kps ''right_knee'' \<noteq> None" "findKeypoint kps ''left_ankle'' \<noteq> None"
    "findKeypoint kps ''right_ankle'' \<noteq> None"
    by (rule all, simp add: requiredNames_def)+
  show ?thesis
    unfolding requiredKeypoints_def Let_def findKeypoint_map [OF assms]
    by (simp add: pres mapBody_def option.map_sel)
qed

lemma applyRules_rescore:
  "applyRules ops prevs wrists (mapBody (\<lambda>k. k\<lparr>kp_score := f k\<rparr>) b)
       (shoulderHipRatio (mapBody (\<lambda>k. k\<lparr>kp_score := f k\<rparr>) b))
       (hipKneeRatio (mapBody (\<lambda>k. k\<lparr>kp_score := f k\<rparr>) b)) =
   applyRules ops prevs wrists b (shoulderHipRatio b) (hipKneeRatio b)"
proof -
  let ?b = "mapBody (\<lambda>k. k\<lparr>kp_score := f k\<rparr>) b"
  have ang: "\<And>p q r. calculateAngle (p\<lparr>kp_score := f p\<rparr>) (q\<lparr>kp_score := f q\<rparr>)
               (r\<lparr>kp_score := f r\<rparr>) = calculateAngle p q r"
    by (simp add: calculateAngle_def)
  have dst: "\<And>p q. calculateDistance (p\<lparr>kp_score := f p\<rparr>) (q\<lparr>kp_score := f q\<rparr>) =
               calculateDistance p q"
    by (simp add: calculateDistance_def)
  have a: "leftKneeAngle ?b = leftKneeAngle b" "rightKneeAngle ?b = rightKneeAngle b"
    "leftHipAngle ?b = leftHipAngle b" "rightHipAngle ?b = rightHipAngle b"
    by (simp_all add: leftKneeAngle_def rightKneeAngle_def leftHipAngle_def rightHipAngle_def
        mapBody_def ang)
  have d: "shoulderHipDist ?b = shoulderHipDist b" "hipKneeDist ?b = hipKneeDist b"
    "kneeAnkleDist ?b = kneeAnkleDist b"
    by (simp_all add: shoulderHipDist_def hipKneeDist_def kneeAnkleDist_def mapBody_def dst)
  have r: "shoulderHipRatio ?b = shoulderHipRatio b" "hipKneeRatio ?b = hipKneeRatio b"
    by (simp_all add: shoulderHipRatio_def hipKneeRatio_def totalHeight_def d)
  have y: "kp_y (nose ?b) = kp_y (nose b)" "kp_x (nose ?b) = kp_x (nose b)"
    "kp_y (leftShoulder ?b) = kp_y (leftShoulder b)"
    "kp_y (rightShoulder ?b) = kp_y (rightShoulder b)"
    "kp_y (leftWrist ?b) = kp_y (leftWrist b)" "kp_y (rightWrist ?b) = kp_y (rightWrist b)"
    "kp_y (leftHip ?b) = kp_y (leftHip b)" "kp_y (rightHip ?b) = kp_y (rightHip b)"
    "kp_y (leftKnee ?b) = kp_y (leftKnee b)" "kp_y (rightKnee ?b) = kp_y (rightKnee b)"
    by (simp_all add: mapBody_def)
  have c: "armsRaised ?b = armsRaised b" "isSquatting ?b = isSquatting b"
    "\<And>s h. isSitting ?b s h = isSitting b s h" "\<And>s h. isStanding ?b s h = isStanding b s h"
    by (simp_all only: armsRaised_def isSquatting_def isSitting_def isStanding_def a y)
  show ?thesis
    by (simp only: applyRules_def r c y)
qed

lemma determineActivity_rescore:
  "determineActivity ops prevs wrists (map (\<lambda>k. k\<lparr>kp_score := f k\<rparr>) kps) =
     determineActivity ops prevs wrists kps"
proof -
  have m: "requiredKeypoints (map (\<lambda>k. k\<lparr>kp_score := f k\<rparr>) kps) =
             map_option (mapBody (\<lambda>k. k\<lparr>kp_score := f k\<rparr>)) (requiredKeypoints kps)"
    by (rule requiredKeypoints_map) simp
  show ?thesis
    unfolding determineActivity_def m
    by (cases "requiredKeypoints kps") (simp_all add: applyRules_rescore)
qed

lemma determineActivity_missing:
  "requiredKeypoints kps = None \<Longrightarrow> determineActivity ops prevs wrists kps = Stable"
  by (simp add: determineActivity_def)

text \<open>
  Claim C3, amended. For every frame in which one of the thirteen required keypoints is
  missing, \<open>determineActivity\<close> returns Stable. Confidence scores of keypoints are never
  read: replacing them by any other scores leaves the result unchanged.
\<close>

theorem missing_keypoint_stable:
  "(n \<in> set requiredNames \<and> findKeypoint kps n = None \<longrightarrow>
      determineActivity ops prevs wrists kps = Stable) \<and>
   determineActivity ops prevs wrists (map (\<lambda>k. k\<lparr>kp_score := f k\<rparr>) kps) =
     determineActivity ops prevs wrists kps"
  using missing_required [of n kps] determineActivity_missing [of kps ops prevs wrists]
    determineActivity_rescore [of ops prevs wrists f kps]
  by blast

lemma find_noAnkle:
  "findKeypoint noAnkleFrame ''right_ankle'' = None"
  "findKeypoint noAnkleFrame ''nose'' = Some (mkKeypoint ''nose'' 230 100)"
  "findKeypoint noAnkleFrame ''left_wrist'' = Some (mkKeypoint ''left_wrist'' 200 140)"
  "findKeypoint noAnkleFrame ''right_wrist'' = Some (mkKeypoint ''right_wrist'' 260 140)"
  by (simp_all add: findKeypoint_def noAnkleFrame_def raisedFrame_def mkKeypoint_def)

theorem missing_keypoint_stable_witness:
  "''right_ankle'' \<in> set requiredNames \<and> findKeypoint noAnkleFrame ''right_ankle'' = None \<and>
   determineActivity exactArith [] [] noAnkleFrame = Stable"
  using missing_keypoint_stable [where n = "''right_ankle''" and kps = noAnkleFrame and ops = exactArith and prevs = "[]" and wrists = "[]"] find_noAnkle(1)
  by (simp add: requiredNames_def)

text \<open>
  Claim C3 as stated fails: in the frame below every keypoint has confidence 0, all
  thirteen are present, and the result is Raising Hands.
\<close>

theorem low_score_not_stable:
  "list_all (\<lambda>k. kp_score k = 0) dimFrame \<and> requiredKeypoints dimFrame \<noteq> None \<and>
   determineActivity exactArith [] [] dimFrame = RaisingHands"
proof -
  have "determineActivity exactArith [] [] dimFrame = determineActivity exactArith [] [] raisedFrame"
    unfolding dimFrame_def
    by (rule determineActivity_rescore)
  moreover have "determineActivity exactArith [] [] raisedFrame = RaisingHands"
    by (simp add: determineActivity_rules [OF required_raisedFrame] applyRules_def raised_arms)
  moreover have "requiredKeypoints dimFrame \<noteq> None"
    unfolding dimFrame_def
    by (simp add: requiredKeypoints_map required_raisedFrame)
  moreover have "list_all (\<lambda>k. kp_score k = 0) dimFrame"
    by (simp add: dimFrame_def raisedFrame_def)
  ultimately show ?thesis by simp
qed

section \<open>The cycle on a rejected frame\<close>

lemma required_noAnkle: "requiredKeypoints noAnkleFrame = None"
  using missing_required [of "''right_ankle''" noAnkleFrame] find_noAnkle(1)
  by (simp add: requiredNames_def)

text \<open>
  Claim C2, amended. For every cycle whose pose passes the score test and whose frame
  lacks a required keypoint, the activity becomes Stable; the position history is left
  as it is when the nose is missing and otherwise receives the nose position; the wrist
  history is left as it is when a wrist is missing and otherwise receives the wrist pair.
\<close>

theorem rejected_frame_cycle:
  assumes "requiredKeypoints (pose_keypoints p) = None"
    and "pose_score p = Some s" and "s > 0.3"
  shows
    "currentActivity (detectPose ops st (p # ps)) = Stable \<and>
     previousPositions (detectPose ops st (p # ps)) =
       (case findKeypoint (pose_keypoints p) ''nose'' of
          None \<Rightarrow> previousPositions st
        | Some n \<Rightarrow> appendPosition (previousPositions st) \<lparr>pos_x = kp_x n, pos_y = kp_y n\<rparr>) \<and>
     wristPositions (detectPose ops st (p # ps)) =
       (case findKeypoint (pose_keypoints p) ''left_wrist'' of
          None \<Rightarrow> wristPositions st
        | Some lw \<Rightarrow>
            (case findKeypoint (pose_keypoints p) ''right_wrist'' of
               None \<Rightarrow> wristPositions st
             | Some rw \<Rightarrow>
                 appendWrists (wristPositions st)
                   \<lparr>left = \<lparr>pos_x = kp_x lw, pos_y = kp_y lw\<rparr>,
                    right = \<lparr>pos_x = kp_x rw, pos_y = kp_y rw\<rparr>\<rparr>))"
proof -
  have act: "determineActivity ops (previousPositions st) (wristPositions st) (pose_keypoints p) = Stable"
    using assms(1) by (rule determineActivity_missing)
  show ?thesis
    unfolding detectPose_def Let_def
    using assms(3) by (simp add: assms(2) act split: option.splits)
qed

theorem rejected_frame_cycle_witness:
  "requiredKeypoints (pose_keypoints noAnklePose) = None \<and>
   pose_score noAnklePose = Some 0.9 \<and> (0.9 :: real) > 0.3 \<and>
   currentActivity (detectPose exactArith initialState [noAnklePose]) = Stable \<and>
   previousPositions (detectPose exactArith initialState [noAnklePose]) = [\<lparr>pos_x = 230, pos_y = 100\<rparr>] \<and>
   wristPositions (detectPose exactArith initialState [noAnklePose]) =
     [\<lparr>left = \<lparr>pos_x = 200, pos_y = 140\<rparr>, right = \<lparr>pos_x = 260, pos_y = 140\<rparr>\<rparr>]"
proof -
  have k: "pose_keypoints noAnklePose = noAnkleFrame" "pose_score noAnklePose = Some 0.9"
    by (simp_all add: noAnklePose_def)
  have r: "requiredKeypoints (pose_keypoints noAnklePose) = None"
    unfolding k by (rule required_noAnkle)
  show ?thesis
    using rejected_frame_cycle [OF r k(2), where ops = exactArith and st = initialState and ps = "[]"] r
    by (simp add: k find_noAnkle initialState_def appendPosition_def appendWrists_def
        js_slice_last_def mkKeypoint_def)
qed

text \<open>
  Claim C2 as stated fails: the frame without \<open>right_ankle\<close> is classified Stable, and
  the cycle appends to both histories.
\<close>

theorem rejected_frame_mutates_history:
  "findKeypoint noAnkleFrame ''right_ankle'' = None \<and>
   determineActivity exactArith [] [] noAnkleFrame = Stable \<and>
   currentActivity (detectPose exactArith initialState [noAnklePose]) = Stable \<and>
   previousPositions (detectPose exactArith initialState [noAnklePose]) \<noteq> previousPositions initialState \<and>
   wristPositions (detectPose exactArith initialState [noAnklePose]) \<noteq> wristPositions initialState"
proof -
  have act: "determineActivity exactArith [] [] noAnkleFrame = Stable"
    using required_noAnkle by (rule determineActivity_missing)
  show ?thesis
    unfolding detectPose_def Let_def
    by (simp add: noAnklePose_def find_noAnkle act initialState_def appendPosition_def
        appendWrists_def js_slice_last_def)
qed

section \<open>Zero total height\<close>

lemma required_pointFrame: "requiredKeypoints pointFrame = Some pointBody"
  by (simp add: requiredKeypoints_def findKeypoint_def pointFrame_def pointBody_def
      requiredNames_def mkKeypoint_def)

lemma point_height: "totalHeight pointBody = 0"
  by (simp add: totalHeight_def shoulderHipDist_def hipKneeDist_def kneeAnkleDist_def
      calculateDistance_def pointBody_def mkKeypoint_def)

lemma calculateDistance_nonneg: "0 \<le> calculateDistance p q"
  by (simp add: calculateDistance_def)

lemma zero_height_dists:
  assumes "totalHeight b = 0"
  shows "shoulderHipDist b = 0" and "hipKneeDist b = 0"
proof -
  have "0 \<le> shoulderHipDist b" "0 \<le> hipKneeDist b" "0 \<le> kneeAnkleDist b"
    using calculateDistance_nonneg
    by (simp_all add: shoulderHipDist_def hipKneeDist_def kneeAnkleDist_def)
  with assms show "shoulderHipDist b = 0" and "hipKneeDist b = 0"
    unfolding totalHeight_def by linarith+
qed

text \<open>
  Claim C4, amended. For every frame with all required keypoints whose \<open>totalHeight\<close> is
  zero, both ratios are \<open>NaN\<close> (the quotient of zero by zero); the comparisons on them
  are false, so neither Sitting nor Standing matches, and the label returned is the one
  that ratios of zero would give.
\<close>

theorem zero_height_ratios_nan:
  assumes "requiredKeypoints kps = Some b" and "totalHeight b = 0"
  shows
    "shoulderHipRatio b = NaN \<and> hipKneeRatio b = NaN \<and>
     \<not> isSitting b (shoulderHipRatio b) (hipKneeRatio b) \<and>
     \<not> isStanding b (shoulderHipRatio b) (hipKneeRatio b) \<and>
     determineActivity ops prevs wrists kps = applyRules ops prevs wrists b (Num 0) (Num 0)"
proof -
  have r: "shoulderHipRatio b = NaN" "hipKneeRatio b = NaN"
    using assms(2) zero_height_dists [OF assms(2)]
    by (simp_all add: shoulderHipRatio_def hipKneeRatio_def js_div_def)
  have nan: "\<not> isSitting b NaN NaN" "\<not> isStanding b NaN NaN"
    by (simp_all add: isSitting_def isStanding_def)
  have zero: "\<not> isSitting b (Num 0) (Num 0)" "\<not> isStanding b (Num 0) (Num 0)"
    by (simp_all add: isSitting_def isStanding_def)
  have "applyRules ops prevs wrists b NaN NaN = applyRules ops prevs wrists b (Num 0) (Num 0)"
    unfolding applyRules_def by (simp only: nan zero)
  then show ?thesis
    unfolding determineActivity_rules [OF assms(1)] r using nan by simp
qed

theorem zero_height_ratios_nan_witness:
  "requiredKeypoints pointFrame = Some pointBody \<and> totalHeight pointBody = 0 \<and>
   shoulderHipRatio pointBody = NaN \<and> hipKneeRatio pointBody = NaN \<and>
   determineActivity exactArith [] [] pointFrame = Stable"
proof -
  have cond: "\<not> armsRaised pointBody" "\<not> isWaving exactArith []" "\<not> isSquatting pointBody"
    "\<not> isMoving exactArith [] \<lparr>pos_x = kp_x (nose pointBody), pos_y = kp_y (nose pointBody)\<rparr>"
    "\<not> isSitting pointBody (Num 0) (Num 0)" "\<not> isStanding pointBody (Num 0) (Num 0)"
    by (simp_all add: armsRaised_def isWaving_def isMoving_def isSquatting_def isSitting_def
        isStanding_def leftHipAngle_def calculateAngle_def pointBody_def mkKeypoint_def)
  have "applyRules exactArith [] [] pointBody (Num 0) (Num 0) = Stable"
    unfolding applyRules_def by (simp only: cond if_False)
  then show ?thesis
    using zero_height_ratios_nan [OF required_pointFrame point_height, where ops = exactArith and prevs = "[]" and wrists = "[]"]
      required_pointFrame point_height
    by simp
qed

text \<open>
  Claim C4 as stated fails: with all keypoints at one point \<open>totalHeight\<close> is zero and
  both ratios are \<open>NaN\<close>, not zero.
\<close>

theorem zero_height_ratio_is_nan:
  "requiredKeypoints pointFrame = Some pointBody \<and> totalHeight pointBody = 0 \<and>
   shoulderHipRatio pointBody = NaN \<and> shoulderHipRatio pointBody \<noteq> Num 0 \<and>
   hipKneeRatio pointBody = NaN \<and> hipKneeRatio pointBody \<noteq> Num 0"
proof -
  have "shoulderHipDist pointBody = 0" "hipKneeDist pointBody = 0"
    using zero_height_dists [OF point_height] by simp_all
  then show ?thesis
    by (simp add: required_pointFrame point_height shoulderHipRatio_def hipKneeRatio_def
        js_div_def)
qed

section \<open>The nose test of the squatting rule\<close>

lemma nose_above_never_squatting:
  assumes "requiredKeypoints kps = Some b"
    and "kp_y (nose b) < (kp_y (leftShoulder b) + kp_y (rightShoulder b)) / 2"
  shows "determineActivity ops prevs wrists kps \<noteq> Squatting"
proof -
  have "\<not> isSquatting b" using assms(2) by (simp add: isSquatting_def)
  then show ?thesis
    unfolding determineActivity_rules [OF assms(1)] applyRules_def by simp
qed

text \<open>
  Claim C1. The claim: a frame with all required keypoints that matches neither Raising
  Hands nor Waving, with both knee angles below 100, both hip angles above 45, shoulders
  less than 30 apart vertically and the nose above the shoulder midpoint (smaller \<open>y\<close>),
  is classified Squatting. The source tests \<open>nose.y > (leftShoulder.y + rightShoulder.y) / 2\<close>
  under the comment \<open>Head above shoulders\<close>; with \<open>y\<close> growing downward that is the nose
  below the midpoint. The seated frame satisfies every condition of the claim and is
  classified Sitting.
\<close>

theorem squatting_nose_test_reversed:
  "requiredKeypoints seatedFrame = Some seatedBody \<and>
   \<not> armsRaised seatedBody \<and> \<not> isWaving exactArith [] \<and>
   leftKneeAngle seatedBody < 100 \<and> rightKneeAngle seatedBody < 100 \<and>
   leftHipAngle seatedBody > 45 \<and> rightHipAngle seatedBody > 45 \<and>
   \<bar>kp_y (leftShoulder seatedBody) - kp_y (rightShoulder seatedBody)\<bar> < 30 \<and>
   kp_y (nose seatedBody) < (kp_y (leftShoulder seatedBody) + kp_y (rightShoulder seatedBody)) / 2 \<and>
   determineActivity exactArith [] [] seatedFrame = Sitting"
proof -
  have f: "seatedFrame \<noteq> []" by (simp add: seatedFrame_def)
  have geo: "\<not> armsRaised seatedBody"
    "\<bar>kp_y (leftShoulder seatedBody) - kp_y (rightShoulder seatedBody)\<bar> < 30"
    "kp_y (nose seatedBody) < (kp_y (leftShoulder seatedBody) + kp_y (rightShoulder seatedBody)) / 2"
    by (simp_all add: armsRaised_def seatedBody_def mkKeypoint_def)
  have w: "\<not> isWaving exactArith []" by (simp add: isWaving_def)
  have sq: "\<not> isSquatting seatedBody"
    using geo(3) by (simp add: isSquatting_def)
  have ratios: "shoulderHipRatio seatedBody = Num (1 / 3)" "hipKneeRatio seatedBody = Num (1 / 3)"
    by (simp_all add: shoulderHipRatio_def hipKneeRatio_def totalHeight_def seated_dists js_div_def)
  have sit: "isSitting seatedBody (shoulderHipRatio seatedBody) (hipKneeRatio seatedBody)"
    unfolding ratios by (simp add: isSitting_def seated_angles) (simp add: seatedBody_def mkKeypoint_def)
  have "determineActivity exactArith [] [] seatedFrame = Sitting"
    by (simp add: determineActivity_def f required_seatedFrame applyRules_def geo(1) w sq sit)
  then show ?thesis
    using geo w by (simp add: required_seatedFrame seated_angles)
qed

end
